theory Spec2Isabelle
  imports Complex_Main
begin

section \<open>RC aircraft control surface servo torque estimator\<close>

text \<open>
  A shallow embedding of \<^verbatim>\<open>servo_torque_estimator.py\<close>.

  Python floats are modelled as \<^typ>\<open>real\<close>: the arithmetic is exact, there is no
  rounding, no infinity and no NaN. Everything below is a statement about the formulas
  the program evaluates, not about their IEEE 754 rounding. The two float operations that
  raise, division by zero and a power beyond the float range, are modelled as raising.
  For the sign of the torque, which overflow and NaN decide, the torque function has a
  second, finer model over floats with infinity and NaN.

  The builtins the program calls (\<^verbatim>\<open>input\<close>, \<^verbatim>\<open>print\<close>, \<^verbatim>\<open>float\<close>, string
  formatting) are not code of the program. Console input and output are an explicit
  state; parsing and formatting of floats are parameters of the model.
\<close>

subsection \<open>Exceptions\<close>

datatype exn = ValueError | EOFError | ZeroDivisionError | OverflowError

subsection \<open>Constants\<close>

text \<open>\<^verbatim>\<open>NM_TO_KGCM = 10.1972\<close>\<close>

definition NM_TO_KGCM :: real where
  "NM_TO_KGCM = 10.1972"

subsection \<open>Float division\<close>

text \<open>Python's \<^verbatim>\<open>x / y\<close> on floats raises \<^verbatim>\<open>ZeroDivisionError\<close> when \<open>y\<close> is zero.\<close>

definition py_truediv :: "real \<Rightarrow> real \<Rightarrow> exn + real" where
  "py_truediv x y = (if y = 0 then Inl ZeroDivisionError else Inr (x / y))"

subsection \<open>Float power\<close>

text \<open>
  \<^verbatim>\<open>sys.float_info.max\<close>, the largest float. Python's \<^verbatim>\<open>x ** n\<close> on floats raises
  \<^verbatim>\<open>OverflowError\<close> when the result is beyond it (float multiplication does not
  raise: it gives infinity, which the reals of this model leave out).
\<close>

definition float_max :: real where
  "float_max = (2 ^ 53 - 1) * 2 ^ 971"

definition py_pow :: "real \<Rightarrow> nat \<Rightarrow> exn + real" where
  "py_pow x n = (if float_max < \<bar>x ^ n\<bar> then Inl OverflowError else Inr (x ^ n))"

subsection \<open>Geometry and torque\<close>

text \<open>
  \<^verbatim>\<open>return (root_chord + tip_chord) * span / 2.0\<close>
  (the parameter \<^verbatim>\<open>span\<close> is written \<open>span'\<close>: the name is taken in HOL).
\<close>

definition calculate_trapezoid_area :: "real \<Rightarrow> real \<Rightarrow> real \<Rightarrow> exn + real" where
  "calculate_trapezoid_area root_chord tip_chord span' =
     py_truediv ((root_chord + tip_chord) * span') 2.0"

text \<open>\<^verbatim>\<open>return (root_chord + tip_chord) / 2.0\<close>\<close>

definition calculate_mean_aerodynamic_chord :: "real \<Rightarrow> real \<Rightarrow> exn + real" where
  "calculate_mean_aerodynamic_chord root_chord tip_chord =
     py_truediv (root_chord + tip_chord) 2.0"

text \<open>
  \<^verbatim>\<open>
  torque_nm = dynamic_pressure * surface_area * mean_chord * abs(hinge_coeff)
  torque_kg_cm = torque_nm * NM_TO_KGCM
  return torque_nm, torque_kg_cm
  \<close>
\<close>

definition calculate_hinge_torque :: "real \<Rightarrow> real \<Rightarrow> real \<Rightarrow> real \<Rightarrow> real \<times> real" where
  "calculate_hinge_torque dynamic_pressure surface_area mean_chord hinge_coeff =
     (let torque_nm = dynamic_pressure * surface_area * mean_chord * \<bar>hinge_coeff\<bar>;
          torque_kg_cm = torque_nm * NM_TO_KGCM
      in (torque_nm, torque_kg_cm))"

subsection \<open>The torque over floats with infinity and NaN\<close>








subsection \<open>Console and builtins\<close>

text \<open>
  The console: the lines still to be read from standard input, and the chunks written to
  standard output so far, oldest first.
\<close>

record io =
  stdin :: "string list"
  stdout :: "string list"

text \<open>
  What the program takes from Python's float type: \<^verbatim>\<open>float(s)\<close> on a string
  (\<open>None\<close> is \<^verbatim>\<open>ValueError\<close>), the text of a float in an f-string, and the fixed-point
  formats \<^verbatim>\<open>:.2f\<close> and \<^verbatim>\<open>:.4f\<close>.
\<close>

record builtins =
  float_of_str :: "string \<Rightarrow> real option"
  str_of_float :: "real \<Rightarrow> string"
  format_fixed :: "nat \<Rightarrow> real \<Rightarrow> string"

text \<open>The argument of an \<^verbatim>\<open>input_type\<close> call: the default value or the line read.\<close>

datatype pyval = PStr string | PFloat real

text \<open>\<^verbatim>\<open>float(v)\<close>: a float is returned as it is, a string is parsed.\<close>

definition py_float :: "builtins \<Rightarrow> pyval \<Rightarrow> exn + real" where
  "py_float b v =
     (case v of
        PFloat x \<Rightarrow> Inr x
      | PStr s \<Rightarrow> (case float_of_str b s of None \<Rightarrow> Inl ValueError | Some x \<Rightarrow> Inr x))"

text \<open>
  \<^verbatim>\<open>input(prompt)\<close> writes the prompt, then reads one line; at the end of the input it
  raises \<^verbatim>\<open>EOFError\<close>.
\<close>

definition py_input :: "string \<Rightarrow> io \<Rightarrow> (exn + string) \<times> io" where
  "py_input prompt s =
     (let s1 = s\<lparr>stdout := stdout s @ [prompt]\<rparr>
      in case stdin s1 of
           [] \<Rightarrow> (Inl EOFError, s1)
         | line # rest \<Rightarrow> (Inr line, s1\<lparr>stdin := rest\<rparr>))"

text \<open>\<^verbatim>\<open>print(msg)\<close> writes the message and a newline.\<close>

definition py_print :: "string \<Rightarrow> io \<Rightarrow> io" where
  "py_print msg s = s\<lparr>stdout := stdout s @ [msg @ [CHR 0x0A]]\<rparr>"

subsection \<open>Sequencing\<close>

text \<open>
  A statement is a function from the console to a result and the console after it; an
  exception ends the sequence.
\<close>

type_synonym 'a stmt = "io \<Rightarrow> (exn + 'a) \<times> io"

definition io_return :: "'a \<Rightarrow> 'a stmt" where
  "io_return v s = (Inr v, s)"

definition io_bind :: "'a stmt \<Rightarrow> ('a \<Rightarrow> 'b stmt) \<Rightarrow> 'b stmt" where
  "io_bind m f s = (case m s of (Inl e, s') \<Rightarrow> (Inl e, s') | (Inr v, s') \<Rightarrow> f v s')"

definition io_print :: "string \<Rightarrow> unit stmt" where
  "io_print msg s = (Inr (), py_print msg s)"

definition io_lift :: "exn + 'a \<Rightarrow> 'a stmt" where
  "io_lift r s = (r, s)"

subsection \<open>Input acquisition\<close>

text \<open>
  \<^verbatim>\<open>
  def get_user_input(prompt_text, default_value, input_type=float):
      try:
          user_value = input(f"{prompt_text} [e.g., {default_value}]: ")
          if user_value == "":
              return input_type(default_value)
          return input_type(user_value)
      except ValueError:
          print(f"Invalid input. Using default value: {default_value}")
          return input_type(default_value)
  \<close>
  Only \<^verbatim>\<open>ValueError\<close> is caught; any other exception of the body, and any exception of
  the handler, goes to the caller.
\<close>

definition get_user_input ::
  "builtins \<Rightarrow> string \<Rightarrow> real \<Rightarrow> (pyval \<Rightarrow> exn + 'v) \<Rightarrow> 'v stmt" where
  "get_user_input b prompt_text default_value input_type s =
     (let body =
            (case py_input (prompt_text @ '' [e.g., '' @ str_of_float b default_value @ '']: '') s of
               (Inl e, s1) \<Rightarrow> (Inl e, s1)
             | (Inr user_value, s1) \<Rightarrow>
                 (if user_value = '''' then (input_type (PFloat default_value), s1)
                  else (input_type (PStr user_value), s1)))
      in case body of
           (Inr v, s1) \<Rightarrow> (Inr v, s1)
         | (Inl e, s1) \<Rightarrow>
             (if e = ValueError then
                (let s2 = py_print (''Invalid input. Using default value: ''
                                    @ str_of_float b default_value) s1
                 in (input_type (PFloat default_value), s2))
              else (Inl e, s1)))"

subsection \<open>Surface processor\<close>

text \<open>
  The dictionary of a surface's defaults, with the keys \<^verbatim>\<open>ch\<close>, \<^verbatim>\<open>span\<close>,
  \<^verbatim>\<open>root_chord\<close>, \<^verbatim>\<open>tip_chord\<close> and \<^verbatim>\<open>note\<close>, and the dictionary that
  \<^verbatim>\<open>process_surface\<close> returns, with the keys \<^verbatim>\<open>name\<close>, \<^verbatim>\<open>ch\<close>, \<^verbatim>\<open>torque_nm\<close>
  and \<^verbatim>\<open>torque_kgcm\<close>. Both have fixed keys and are records here.
\<close>

record defaults =
  d_ch :: real
  d_span :: real
  d_root_chord :: real
  d_tip_chord :: real
  d_note :: string

record surface_result =
  r_name :: string
  r_ch :: real
  r_torque_nm :: real
  r_torque_kgcm :: real

text \<open>
  \<^verbatim>\<open>
  def process_surface(name, defaults, dynamic_pressure):
      print(f"\n--- {name} Parameters {defaults['note']} ---")
      hinge_coeff = get_user_input(f"{name} Hinge Moment Coefficient (Ch)", defaults['ch'])
      span = get_user_input(f"{name} span in meters", defaults['span'])
      root_chord = get_user_input(f"{name} root chord in meters", defaults['root_chord'])
      tip_chord = get_user_input(f"{name} tip chord in meters", defaults['tip_chord'])
      area = calculate_trapezoid_area(root_chord, tip_chord, span)
      mean_chord = calculate_mean_aerodynamic_chord(root_chord, tip_chord)
      torque_nm, torque_kgcm = calculate_hinge_torque(
          dynamic_pressure, area, mean_chord, hinge_coeff)
      return {"name": name, "ch": hinge_coeff, "torque_nm": torque_nm,
              "torque_kgcm": torque_kgcm}
  \<close>
\<close>

definition process_surface :: "builtins \<Rightarrow> string \<Rightarrow> defaults \<Rightarrow> real \<Rightarrow> surface_result stmt" where
  "process_surface b name defaults dynamic_pressure =
     io_bind (io_print ([CHR 0x0A] @ ''--- '' @ name @ '' Parameters '' @ d_note defaults @ '' ---''))
       (\<lambda>_.
     io_bind (get_user_input b (name @ '' Hinge Moment Coefficient (Ch)'') (d_ch defaults) (py_float b))
       (\<lambda>hinge_coeff.
     io_bind (get_user_input b (name @ '' span in meters'') (d_span defaults) (py_float b))
       (\<lambda>span'.
     io_bind (get_user_input b (name @ '' root chord in meters'') (d_root_chord defaults) (py_float b))
       (\<lambda>root_chord.
     io_bind (get_user_input b (name @ '' tip chord in meters'') (d_tip_chord defaults) (py_float b))
       (\<lambda>tip_chord.
     io_bind (io_lift (calculate_trapezoid_area root_chord tip_chord span'))
       (\<lambda>area.
     io_bind (io_lift (calculate_mean_aerodynamic_chord root_chord tip_chord))
       (\<lambda>mean_chord.
     (case calculate_hinge_torque dynamic_pressure area mean_chord hinge_coeff of
        (torque_nm, torque_kgcm) \<Rightarrow>
          io_return \<lparr>r_name = name, r_ch = hinge_coeff,
                      r_torque_nm = torque_nm, r_torque_kgcm = torque_kgcm\<rparr>))))))))"

subsection \<open>Orchestrator\<close>

text \<open>
  \<^verbatim>\<open>surface_defaults\<close>: a dictionary literal, iterated in insertion order, hence an
  association list.
\<close>

definition surface_defaults :: "(string \<times> defaults) list" where
  "surface_defaults =
     [(''Aileron'',  \<lparr>d_ch = - 0.15, d_span = 0.924, d_root_chord = 0.110, d_tip_chord = 0.050,
                      d_note = ''(Single Aileron)''\<rparr>),
      (''Elevator'', \<lparr>d_ch = - 0.10, d_span = 0.318, d_root_chord = 0.225, d_tip_chord = 0.225,
                      d_note = ''(One Half of the Elevator)''\<rparr>),
      (''Rudder'',   \<lparr>d_ch = - 0.10, d_span = 0.308, d_root_chord = 0.200, d_tip_chord = 0.150,
                      d_note = ''''\<rparr>)]"

text \<open>
  \<^verbatim>\<open>
  results = []
  for name, defaults in surface_defaults.items():
      surface_result = process_surface(name, defaults, dynamic_pressure)
      results.append(surface_result)
  \<close>
  The loop over the items still to visit, with \<^verbatim>\<open>results\<close> as accumulator.
\<close>

fun process_all ::
  "builtins \<Rightarrow> real \<Rightarrow> (string \<times> defaults) list \<Rightarrow> surface_result list \<Rightarrow> surface_result list stmt" where
  "process_all b dynamic_pressure [] results = io_return results"
| "process_all b dynamic_pressure ((name, defaults) # items) results =
     io_bind (process_surface b name defaults dynamic_pressure)
       (\<lambda>surface_result. process_all b dynamic_pressure items (results @ [surface_result]))"

text \<open>
  \<^verbatim>\<open>
  for res in results:
      print(f"\nFor the {res['name']} (using Ch = {res['ch']}):")
      print(f"  - Required Torque: {res['torque_nm']:.4f} N.m")
      print(f"  - Required Torque: {res['torque_kgcm']:.2f} kg-cm")
  \<close>
  \<open>report_lines\<close> is what one turn of the loop prints.
\<close>

definition report_lines :: "builtins \<Rightarrow> surface_result \<Rightarrow> string list" where
  "report_lines b res =
     [[CHR 0x0A] @ ''For the '' @ r_name res @ '' (using Ch = '' @ str_of_float b (r_ch res) @ ''):'',
      ''  - Required Torque: '' @ format_fixed b 4 (r_torque_nm res) @ '' N.m'',
      ''  - Required Torque: '' @ format_fixed b 2 (r_torque_kgcm res) @ '' kg-cm'']"

fun display_results :: "builtins \<Rightarrow> surface_result list \<Rightarrow> io \<Rightarrow> io" where
  "display_results b [] s = s"
| "display_results b (res # rest) s =
     display_results b rest (foldl (\<lambda>s' l. py_print l s') s (report_lines b res))"

definition disclaimer :: string where
  "disclaimer = [CHR 0x0A] @ ''Disclaimer: This is a theoretical estimation. Always choose a servo with a safety margin (e.g., 1.5x to 2x the estimated torque).''"

text \<open>
  \<^verbatim>\<open>
  def run_servo_torque_estimation():
      print("--- RC Servo Torque Estimator ---")
      print("Enter the flight conditions and aircraft parameters in the specified units.")
      print("\n--- Flight Conditions ---")
      air_density = get_user_input("Air density (rho) in kg/m^3", 1.225)
      velocity = get_user_input("Aircraft velocity (V) in m/s", 18.0)
      dynamic_pressure = 0.5 * air_density * (velocity ** 2)
      print(f"\nCalculated Dynamic Pressure (q): {dynamic_pressure:.2f} N/m^2")
      surface_defaults = { ... }
      results = []
      for name, defaults in surface_defaults.items(): ...
      print("\n--- ESTIMATED SERVO TORQUE REQUIREMENTS ---")
      for res in results: ...
      print("\nDisclaimer: ...")
  \<close>
  The Python function returns \<^verbatim>\<open>None\<close>; the model returns the local list
  \<^verbatim>\<open>results\<close>, so that it can be spoken about. The power \<^verbatim>\<open>velocity ** 2\<close> is
  evaluated first and may raise.
\<close>

definition run_servo_torque_estimation :: "builtins \<Rightarrow> surface_result list stmt" where
  "run_servo_torque_estimation b =
     io_bind (io_print ''--- RC Servo Torque Estimator ---'')
       (\<lambda>_.
     io_bind (io_print ''Enter the flight conditions and aircraft parameters in the specified units.'')
       (\<lambda>_.
     io_bind (io_print ([CHR 0x0A] @ ''--- Flight Conditions ---''))
       (\<lambda>_.
     io_bind (get_user_input b ''Air density (rho) in kg/m^3'' 1.225 (py_float b))
       (\<lambda>air_density.
     io_bind (get_user_input b ''Aircraft velocity (V) in m/s'' 18.0 (py_float b))
       (\<lambda>velocity.
     io_bind (io_lift (py_pow velocity 2))
       (\<lambda>velocity_squared.
     (let dynamic_pressure = 0.5 * air_density * velocity_squared in
     io_bind (io_print ([CHR 0x0A] @ ''Calculated Dynamic Pressure (q): ''
                        @ format_fixed b 2 dynamic_pressure @ '' N/m^2''))
       (\<lambda>_.
     io_bind (process_all b dynamic_pressure surface_defaults [])
       (\<lambda>results.
     io_bind (io_print ([CHR 0x0A] @ ''--- ESTIMATED SERVO TORQUE REQUIREMENTS ---''))
       (\<lambda>_.
     io_bind (\<lambda>s. (Inr (), display_results b results s))
       (\<lambda>_.
     io_bind (io_print disclaimer)
       (\<lambda>_. io_return results))))))))))))"

subsection \<open>What a run reads and writes\<close>






subsection \<open>A stand-in for the builtins\<close>

text \<open>
  The properties below hold for every way of parsing and writing floats. To evaluate the
  model on a concrete console, this stand-in parses three literals and rejects every
  other string, writes the default values of the program as Python does (sign included)
  and every other float as a question mark, and writes a question mark for every
  fixed-point format.
\<close>

definition sample_builtins :: builtins where
  "sample_builtins =
     \<lparr>float_of_str = map_of [(''2.5'', 2.5), (''-0.2'', - 0.2), (''1e200'', 10 ^ 200)],
      str_of_float =
        (\<lambda>x. case map_of [(1.225, ''1.225''), (18.0, ''18.0''), (- 0.15, ''-0.15''),
                          (0.924, ''0.924''), (0.110, ''0.11''), (0.050, ''0.05''),
                          (- 0.10, ''-0.1''), (0.318, ''0.318''), (0.225, ''0.225''),
                          (0.308, ''0.308''), (0.200, ''0.2''), (0.150, ''0.15'')] x of
               Some t \<Rightarrow> t
             | None \<Rightarrow> ''?''),
      format_fixed = (\<lambda>n x. ''?'')\<rparr>"

section \<open>Properties\<close>

subsection \<open>Auxiliary facts\<close>

lemma py_truediv_two: "py_truediv x 2 = Inr (x / 2)"
  by (simp add: py_truediv_def)

lemma area_value:
  "calculate_trapezoid_area r t s = Inr ((r + t) * s / 2)"
  by (simp add: calculate_trapezoid_area_def py_truediv_two)

lemma mac_value:
  "calculate_mean_aerodynamic_chord r t = Inr ((r + t) / 2)"
  by (simp add: calculate_mean_aerodynamic_chord_def py_truediv_two)

lemma get_user_input_float:
  "get_user_input b p d (py_float b) s =
     (case stdin s of
        [] \<Rightarrow> (Inl EOFError, s\<lparr>stdout := stdout s @ [p @ '' [e.g., '' @ str_of_float b d @ '']: '']\<rparr>)
      | line # rest \<Rightarrow>
          (let s1 = s\<lparr>stdin := rest, stdout := stdout s @ [p @ '' [e.g., '' @ str_of_float b d @ '']: '']\<rparr>
           in if line = '''' then (Inr d, s1)
              else (case float_of_str b line of
                      None \<Rightarrow> (Inr d, s1\<lparr>stdout := stdout s1 @ [''Invalid input. Using default value: '' @ str_of_float b d @ [CHR 0x0A]]\<rparr>)
                    | Some x \<Rightarrow> (Inr x, s1))))"
  by (simp add: get_user_input_def py_input_def py_float_def py_print_def Let_def
      split: list.splits option.splits)

lemma stdout_py_print: "stdout (py_print msg s) = stdout s @ [msg @ [CHR 0x0A]]"
  by (simp add: py_print_def)

lemma stdout_foldl_print:
  "stdout (foldl (\<lambda>s' l. py_print l s') s ls) = stdout s @ map (\<lambda>l. l @ [CHR 0x0A]) ls"
  by (induction ls arbitrary: s) (simp_all add: py_print_def)

lemma get_user_input_empty:
  "get_user_input b p d (py_float b) \<lparr>stdin = [] # rest, stdout = out\<rparr>
     = (Inr d, \<lparr>stdin = rest, stdout = out @ [p @ '' [e.g., '' @ str_of_float b d @ '']: '']\<rparr>)"
  by (simp add: get_user_input_float)

lemma py_print_rec:
  "py_print msg \<lparr>stdin = ins, stdout = out\<rparr> = \<lparr>stdin = ins, stdout = out @ [msg @ [CHR 0x0A]]\<rparr>"
  by (simp add: py_print_def)

lemma process_surface_empty:
  "process_surface b name d q \<lparr>stdin = [] # [] # [] # [] # rest, stdout = out\<rparr> =
     (Inr \<lparr>r_name = name, r_ch = d_ch d,
           r_torque_nm = q * ((d_root_chord d + d_tip_chord d) * d_span d / 2)
                           * ((d_root_chord d + d_tip_chord d) / 2) * \<bar>d_ch d\<bar>,
           r_torque_kgcm = q * ((d_root_chord d + d_tip_chord d) * d_span d / 2)
                           * ((d_root_chord d + d_tip_chord d) / 2) * \<bar>d_ch d\<bar> * 10.1972\<rparr>,
      \<lparr>stdin = rest,
       stdout = out @ [[CHR 0x0A] @ ''--- '' @ name @ '' Parameters '' @ d_note d @ '' ---'' @ [CHR 0x0A],
          name @ '' Hinge Moment Coefficient (Ch)'' @ '' [e.g., '' @ str_of_float b (d_ch d) @ '']: '',
          name @ '' span in meters'' @ '' [e.g., '' @ str_of_float b (d_span d) @ '']: '',
          name @ '' root chord in meters'' @ '' [e.g., '' @ str_of_float b (d_root_chord d) @ '']: '',
          name @ '' tip chord in meters'' @ '' [e.g., '' @ str_of_float b (d_tip_chord d) @ '']: '']\<rparr>)"
  by (simp add: process_surface_def io_bind_def io_print_def io_lift_def io_return_def
      py_print_rec get_user_input_empty area_value mac_value calculate_hinge_torque_def
      NM_TO_KGCM_def Let_def)



lemma stdout_display_results:
  "stdout (display_results b rs s)
     = stdout s @ map (\<lambda>l. l @ [CHR 0x0A]) (concat (map (report_lines b) rs))"
  by (induction rs arbitrary: s) (simp_all add: stdout_foldl_print)

lemma io_bind_InrE:
  assumes "io_bind m f s = (Inr v, s')"
  obtains x s1 where "m s = (Inr x, s1)" and "f x s1 = (Inr v, s')"
  using assms by (auto simp add: io_bind_def split: prod.splits sum.splits)

lemma run_Inr:
  assumes "fst (run_servo_torque_estimation b c) = Inr results"
  shows "\<exists>q sA sD. process_all b q surface_defaults [] sA = (Inr results, sD)
           \<and> snd (run_servo_torque_estimation b c)
               = py_print disclaimer (display_results b results
                   (py_print ([CHR 0x0A] @ ''--- ESTIMATED SERVO TORQUE REQUIREMENTS ---'') sD))"
proof -
  obtain s' where run: "run_servo_torque_estimation b c = (Inr results, s')"
    using assms by (cases "run_servo_torque_estimation b c") simp
  have "\<exists>q sA sD. process_all b q surface_defaults [] sA = (Inr results, sD)
           \<and> s' = py_print disclaimer (display_results b results
                   (py_print ([CHR 0x0A] @ ''--- ESTIMATED SERVO TORQUE REQUIREMENTS ---'') sD))"
    using run unfolding run_servo_torque_estimation_def Let_def
    by (elim io_bind_InrE) (auto simp add: io_print_def io_return_def)
  then show ?thesis
    using run by simp
qed

lemma process_all_results:
  assumes "process_all b q items acc s = (Inr out, s')" and "res \<in> set out"
  shows "res \<in> set acc
     \<or> (\<exists>name d s0. (name, d) \<in> set items \<and> fst (process_surface b name d q s0) = Inr res)"
  using assms
proof (induction items arbitrary: acc s)
  case Nil
  then show ?case
    by (simp add: io_return_def)
next
  case (Cons item items)
  obtain name d where item: "item = (name, d)"
    by (cases item)
  from Cons.prems(1) obtain r s1 where p: "process_surface b name d q s = (Inr r, s1)"
    and rest: "process_all b q items (acc @ [r]) s1 = (Inr out, s')"
    by (auto simp add: item io_bind_def split: prod.splits sum.splits)
  from Cons.IH [OF rest Cons.prems(2)] show ?case
  proof
    assume "res \<in> set (acc @ [r])"
    then have "res \<in> set acc \<or> res = r"
      by auto
    then show ?thesis
    proof
      assume "res \<in> set acc"
      then show ?thesis ..
    next
      assume "res = r"
      then have "(name, d) \<in> set (item # items) \<and> fst (process_surface b name d q s) = Inr res"
        using p item by simp
      then show ?thesis
        by blast
    qed
  next
    assume "\<exists>name d s0. (name, d) \<in> set items \<and> fst (process_surface b name d q s0) = Inr res"
    then show ?thesis
      by auto
  qed
qed

lemma process_surface_stores:
  assumes "fst (process_surface b name d q s) = Inr res"
  shows "fst (get_user_input b (name @ '' Hinge Moment Coefficient (Ch)'') (d_ch d) (py_float b)
            (py_print ([CHR 0x0A] @ ''--- '' @ name @ '' Parameters '' @ d_note d @ '' ---'') s))
          = Inr (r_ch res)"
  using assms
  by (auto simp add: process_surface_def io_bind_def io_print_def io_lift_def io_return_def
        area_value mac_value split: prod.splits sum.splits)

lemma default_run_first:
  "\<exists>rE rR.
      fst (run_servo_torque_estimation b
             \<lparr>stdin = [[], [], [], [], [], [], [], [], [], [], [], [], [], []], stdout = []\<rparr>)
        = Inr [\<lparr>r_name = ''Aileron'', r_ch = - 0.15, r_torque_nm = 0.176033088,
                 r_torque_kgcm = 1.7950446049536\<rparr>, rE, rR]"
  by (simp add: run_servo_torque_estimation_def io_bind_def io_print_def io_return_def
      io_lift_def py_pow_def float_max_def py_print_rec get_user_input_empty
      process_surface_empty surface_defaults_def Let_def report_lines_def)








subsection \<open>Hinge torque\<close>

text \<open>
  C1. For every dynamic pressure \<open>q\<close>, surface area \<open>A\<close>, mean chord \<open>c\<close> and hinge
  coefficient \<open>h\<close>, \<open>calculate_hinge_torque q A c h\<close> is the pair whose first component is
  \<open>q * A * c * |h|\<close> and whose second component is the first times the literal constant
  10.1972.
\<close>

theorem calculate_hinge_torque_formula:
  "calculate_hinge_torque q A c h = (q * A * c * \<bar>h\<bar>, (q * A * c * \<bar>h\<bar>) * 10.1972)
   \<and> snd (calculate_hinge_torque q A c h) = fst (calculate_hinge_torque q A c h) * 10.1972
   \<and> NM_TO_KGCM = 10.1972"
  by (simp add: calculate_hinge_torque_def NM_TO_KGCM_def Let_def)

text \<open>
  C3. Sign invariance: flipping the sign of the hinge coefficient changes neither
  component of the result of \<open>calculate_hinge_torque\<close>.
\<close>

theorem calculate_hinge_torque_sign_invariant:
  "calculate_hinge_torque q A c h = calculate_hinge_torque q A c (- h)"
  by (simp add: calculate_hinge_torque_def)




subsection \<open>Geometry\<close>

text \<open>
  C5. For all non-negative root chord, tip chord and span, \<open>calculate_trapezoid_area\<close>
  returns \<open>(root_chord + tip_chord) * span / 2\<close>.
\<close>

theorem calculate_trapezoid_area_formula:
  assumes "0 \<le> root_chord" and "0 \<le> tip_chord" and "0 \<le> span'"
  shows "calculate_trapezoid_area root_chord tip_chord span'
           = Inr ((root_chord + tip_chord) * span' / 2)"
  by (simp add: calculate_trapezoid_area_def py_truediv_two)

theorem calculate_trapezoid_area_formula_witness:
  "(0::real) \<le> 0.110 \<and> (0::real) \<le> 0.050 \<and> (0::real) \<le> 0.924
   \<and> calculate_trapezoid_area 0.110 0.050 0.924 = Inr 0.07392"
  using calculate_trapezoid_area_formula [of "0.110" "0.050" "0.924"] by simp

text \<open>
  C6. For all root and tip chords, \<open>calculate_mean_aerodynamic_chord\<close> returns
  \<open>(root_chord + tip_chord) / 2\<close>.
\<close>

theorem calculate_mean_aerodynamic_chord_formula:
  "calculate_mean_aerodynamic_chord root_chord tip_chord = Inr ((root_chord + tip_chord) / 2)"
  by (simp add: calculate_mean_aerodynamic_chord_def py_truediv_two)


subsection \<open>Input acquisition\<close>

text \<open>
  C2, as stated, fails: \<open>get_user_input\<close> catches \<^verbatim>\<open>ValueError\<close> only, so at the end of
  the input the \<^verbatim>\<open>EOFError\<close> of \<^verbatim>\<open>input\<close> reaches the caller and no value is
  returned.
\<close>

theorem get_user_input_eof_counterexample:
  "fst (get_user_input sample_builtins ''Air density (rho) in kg/m^3'' 1.225
          (py_float sample_builtins) \<lparr>stdin = [], stdout = []\<rparr>) = Inl EOFError"
  by (simp add: get_user_input_def py_input_def Let_def)

text \<open>
  C2, amended. For every prompt, default and console, \<open>get_user_input\<close> with the input
  type \<^verbatim>\<open>float\<close> writes the prompt and then: when a line can be read, it consumes
  that line and returns a value, namely the default when the line is empty, the
  default after printing a warning that names the default when \<^verbatim>\<open>float\<close> rejects the
  line, and the parsed value otherwise; when no line is left, it raises
  \<^verbatim>\<open>EOFError\<close> to the caller.
\<close>

theorem get_user_input_on_console:
  "get_user_input b prompt_text default_value (py_float b) s =
     (let prompt = prompt_text @ '' [e.g., '' @ str_of_float b default_value @ '']: '';
          warning = ''Invalid input. Using default value: '' @ str_of_float b default_value
                    @ [CHR 0x0A]
      in case stdin s of
           [] \<Rightarrow> (Inl EOFError, s\<lparr>stdout := stdout s @ [prompt]\<rparr>)
         | line # rest \<Rightarrow>
             (if line = '''' then
                (Inr default_value, s\<lparr>stdin := rest, stdout := stdout s @ [prompt]\<rparr>)
              else
                (case float_of_str b line of
                   None \<Rightarrow>
                     (Inr default_value,
                      s\<lparr>stdin := rest, stdout := stdout s @ [prompt, warning]\<rparr>)
                 | Some x \<Rightarrow>
                     (Inr x, s\<lparr>stdin := rest, stdout := stdout s @ [prompt]\<rparr>))))"
  by (simp add: get_user_input_def py_input_def py_float_def py_print_def Let_def
      split: list.splits option.splits)

subsection \<open>The default run\<close>

text \<open>
  C4, as stated, fails in its two torque figures: with the dynamic pressure 198.45, the
  area 0.07392, the mean chord 0.080 and the hinge coefficient -0.15, the torque is
  neither within 0.0001 of 0.17586 N.m nor within 0.001 of 1.7936 kg.cm.
\<close>

theorem default_run_torque_counterexample:
  "\<not> \<bar>fst (calculate_hinge_torque 198.45 0.07392 0.080 (- 0.15)) - 0.17586\<bar> \<le> 0.0001
   \<and> \<not> \<bar>snd (calculate_hinge_torque 198.45 0.07392 0.080 (- 0.15)) - 1.7936\<bar> \<le> 0.001"
  by (simp add: calculate_hinge_torque_def NM_TO_KGCM_def Let_def)

text \<open>
  C4, amended. With the Aileron defaults the area is 0.07392 and the mean chord is 0.080;
  with the dynamic pressure 198.45 the torque is 0.176033088 N.m (about 0.17603) and
  1.7950446049536 kg.cm (about 1.7950). A run in which every prompt is answered by an
  empty line, so that the air density is 1.225 and the velocity 18.0, reports the dynamic
  pressure 198.45 and gives the Aileron exactly these torques.
\<close>

theorem default_run_values:
  "calculate_trapezoid_area 0.110 0.050 0.924 = Inr 0.07392
   \<and> calculate_mean_aerodynamic_chord 0.110 0.050 = Inr 0.080
   \<and> calculate_hinge_torque 198.45 0.07392 0.080 (- 0.15) = (0.176033088, 1.7950446049536)
   \<and> (\<exists>rE rR s'.
        run_servo_torque_estimation b
          \<lparr>stdin = ['''', '''', '''', '''', '''', '''', '''', '''', '''', '''', '''', '''', '''', ''''],
           stdout = []\<rparr>
          = (Inr [\<lparr>r_name = ''Aileron'', r_ch = - 0.15, r_torque_nm = 0.176033088,
                   r_torque_kgcm = 1.7950446049536\<rparr>, rE, rR], s')
        \<and> [CHR 0x0A] @ ''Calculated Dynamic Pressure (q): '' @ format_fixed b 2 198.45
             @ '' N/m^2'' @ [CHR 0x0A] \<in> set (stdout s'))"
proof (intro conjI)
  show "calculate_trapezoid_area 0.110 0.050 0.924 = Inr 0.07392"
    by (simp add: area_value)
  show "calculate_mean_aerodynamic_chord 0.110 0.050 = Inr 0.080"
    by (simp add: mac_value)
  show "calculate_hinge_torque 198.45 0.07392 0.080 (- 0.15) = (0.176033088, 1.7950446049536)"
    by (simp add: calculate_hinge_torque_def NM_TO_KGCM_def Let_def)
  show "\<exists>rE rR s'.
        run_servo_torque_estimation b
          \<lparr>stdin = ['''', '''', '''', '''', '''', '''', '''', '''', '''', '''', '''', '''', '''', ''''],
           stdout = []\<rparr>
          = (Inr [\<lparr>r_name = ''Aileron'', r_ch = - 0.15, r_torque_nm = 0.176033088,
                   r_torque_kgcm = 1.7950446049536\<rparr>, rE, rR], s')
        \<and> [CHR 0x0A] @ ''Calculated Dynamic Pressure (q): '' @ format_fixed b 2 198.45
             @ '' N/m^2'' @ [CHR 0x0A] \<in> set (stdout s')"
    by (simp add: run_servo_torque_estimation_def io_bind_def io_print_def io_return_def
        io_lift_def py_pow_def float_max_def py_print_rec get_user_input_empty
        process_surface_empty surface_defaults_def Let_def report_lines_def)
qed

subsection \<open>The order of the surfaces\<close>



subsection \<open>The hinge coefficient of a result\<close>

text \<open>
  C9. The result of \<open>process_surface\<close> stores the hinge coefficient exactly as
  \<open>get_user_input\<close> returned it for the first prompt of the surface, sign included. Every
  result of a run that returns was produced by \<open>process_surface\<close> for a surface of the
  table, and the output of the run contains the report line that writes the stored
  coefficient of that result. With the defaults, the Aileron's coefficient is stored as
  -0.15 and reported as -0.15, while its torque, computed from the absolute value, is
  positive.
\<close>

theorem hinge_coefficient_stored_and_reported:
  "(fst (process_surface b name d q s) = Inr res \<longrightarrow>
      fst (get_user_input b (name @ '' Hinge Moment Coefficient (Ch)'') (d_ch d) (py_float b)
            (py_print ([CHR 0x0A] @ ''--- '' @ name @ '' Parameters '' @ d_note d @ '' ---'') s))
        = Inr (r_ch res))
   \<and> (fst (run_servo_torque_estimation b c) = Inr results \<and> res' \<in> set results \<longrightarrow>
        (\<exists>name' d' q' s0. (name', d') \<in> set surface_defaults
             \<and> fst (process_surface b name' d' q' s0) = Inr res')
        \<and> [CHR 0x0A] @ ''For the '' @ r_name res' @ '' (using Ch = ''
             @ str_of_float b (r_ch res') @ ''):'' @ [CHR 0x0A]
            \<in> set (stdout (snd (run_servo_torque_estimation b c))))"
proof (intro conjI impI)
  assume "fst (process_surface b name d q s) = Inr res"
  then show "fst (get_user_input b (name @ '' Hinge Moment Coefficient (Ch)'') (d_ch d) (py_float b)
            (py_print ([CHR 0x0A] @ ''--- '' @ name @ '' Parameters '' @ d_note d @ '' ---'') s))
        = Inr (r_ch res)"
    by (rule process_surface_stores)
next
  assume a: "fst (run_servo_torque_estimation b c) = Inr results \<and> res' \<in> set results"
  then obtain q' sA sD where all: "process_all b q' surface_defaults [] sA = (Inr results, sD)"
    and fin: "snd (run_servo_torque_estimation b c)
               = py_print disclaimer (display_results b results
                   (py_print ([CHR 0x0A] @ ''--- ESTIMATED SERVO TORQUE REQUIREMENTS ---'') sD))"
    using run_Inr by blast
  from process_all_results [OF all, of res'] a
  obtain name' d' s0 where "(name', d') \<in> set surface_defaults"
    and "fst (process_surface b name' d' q' s0) = Inr res'"
    by auto
  then show "\<exists>name' d' q' s0. (name', d') \<in> set surface_defaults
             \<and> fst (process_surface b name' d' q' s0) = Inr res'"
    by blast
  have "[CHR 0x0A] @ ''For the '' @ r_name res' @ '' (using Ch = ''
             @ str_of_float b (r_ch res') @ ''):'' \<in> set (report_lines b res')"
    by (simp add: report_lines_def)
  then have "[CHR 0x0A] @ ''For the '' @ r_name res' @ '' (using Ch = ''
             @ str_of_float b (r_ch res') @ ''):''
        \<in> set (concat (map (report_lines b) results))"
    using a by auto
  then have "([CHR 0x0A] @ ''For the '' @ r_name res' @ '' (using Ch = ''
             @ str_of_float b (r_ch res') @ ''):'') @ [CHR 0x0A]
        \<in> (\<lambda>l. l @ [CHR 0x0A]) ` set (concat (map (report_lines b) results))"
    by (rule imageI)
  then show "[CHR 0x0A] @ ''For the '' @ r_name res' @ '' (using Ch = ''
             @ str_of_float b (r_ch res') @ ''):'' @ [CHR 0x0A]
            \<in> set (stdout (snd (run_servo_torque_estimation b c)))"
    by (simp add: fin stdout_py_print stdout_display_results)
qed

theorem hinge_coefficient_stored_and_reported_witness:
  "fst (process_surface sample_builtins ''Aileron'' (snd (surface_defaults ! 0)) 198.45
          \<lparr>stdin = ['''', '''', '''', ''''], stdout = []\<rparr>)
     = Inr \<lparr>r_name = ''Aileron'', r_ch = - 0.15, r_torque_nm = 0.176033088,
            r_torque_kgcm = 1.7950446049536\<rparr>
   \<and> fst (get_user_input sample_builtins ''Aileron Hinge Moment Coefficient (Ch)'' (- 0.15)
            (py_float sample_builtins)
            (py_print ([CHR 0x0A] @ ''--- Aileron Parameters (Single Aileron) ---'')
               \<lparr>stdin = ['''', '''', '''', ''''], stdout = []\<rparr>))
       = Inr (- 0.15)
   \<and> (\<exists>rE rR.
        fst (run_servo_torque_estimation sample_builtins
               \<lparr>stdin = ['''', '''', '''', '''', '''', '''', '''', '''', '''', '''', '''', '''',
                         '''', ''''], stdout = []\<rparr>)
          = Inr [\<lparr>r_name = ''Aileron'', r_ch = - 0.15, r_torque_nm = 0.176033088,
                   r_torque_kgcm = 1.7950446049536\<rparr>, rE, rR])
   \<and> [CHR 0x0A] @ ''For the Aileron (using Ch = -0.15):'' @ [CHR 0x0A]
       \<in> set (stdout (snd (run_servo_torque_estimation sample_builtins
               \<lparr>stdin = ['''', '''', '''', '''', '''', '''', '''', '''', '''', '''', '''', '''',
                         '''', ''''], stdout = []\<rparr>)))"
proof -
  let ?c = "\<lparr>stdin = ['''', '''', '''', '''', '''', '''', '''', '''', '''', '''', '''', '''',
                     '''', ''''], stdout = []\<rparr>"
  let ?rA = "\<lparr>r_name = ''Aileron'', r_ch = - 0.15, r_torque_nm = 0.176033088,
              r_torque_kgcm = 1.7950446049536\<rparr>"
  have h1: "fst (process_surface sample_builtins ''Aileron'' (snd (surface_defaults ! 0)) 198.45
          \<lparr>stdin = ['''', '''', '''', ''''], stdout = []\<rparr>) = Inr ?rA"
    by (simp add: process_surface_empty surface_defaults_def)
  obtain rE rR where h2: "fst (run_servo_torque_estimation sample_builtins ?c) = Inr [?rA, rE, rR]"
    using default_run_first [of sample_builtins] by auto
  have h3: "fst (run_servo_torque_estimation sample_builtins ?c) = Inr [?rA, rE, rR]
              \<and> ?rA \<in> set [?rA, rE, rR]"
    using h2 by simp
  note t = hinge_coefficient_stored_and_reported
    [of sample_builtins "''Aileron''" "snd (surface_defaults ! 0)" "198.45"
        "\<lparr>stdin = ['''', '''', '''', ''''], stdout = []\<rparr>" ?rA ?c "[?rA, rE, rR]" ?rA]
  have s1: "fst (get_user_input sample_builtins ''Aileron Hinge Moment Coefficient (Ch)'' (- 0.15)
            (py_float sample_builtins)
            (py_print ([CHR 0x0A] @ ''--- Aileron Parameters (Single Aileron) ---'')
               \<lparr>stdin = ['''', '''', '''', ''''], stdout = []\<rparr>)) = Inr (- 0.15)"
    using t h1 by (simp add: surface_defaults_def)
  have s2: "[CHR 0x0A] @ ''For the Aileron (using Ch = -0.15):'' @ [CHR 0x0A]
       \<in> set (stdout (snd (run_servo_torque_estimation sample_builtins ?c)))"
    using t h3 by (simp add: sample_builtins_def)
  show ?thesis
    using h1 s1 h2 s2 by blast
qed

end
